theory Spec2Isabelle
  imports Complex_Main "HOL-Library.Sublist"
begin

section \<open>JavaScript values\<close>

text \<open>
  The form hook \<^verbatim>\<open>useInstrumentForm\<close>, the \<^verbatim>\<open>ImageUploader\<close> component and
  \<^verbatim>\<open>cloudinaryService\<close> are JavaScript. Form fields, record fields and descriptor
  fields are dynamically typed, and the code relies on truthiness (\<^verbatim>\<open>||\<close>, \<^verbatim>\<open>!\<close>)
  and on strict equality with number literals, so they are values of \<open>jsval\<close>.
  A number is a double: no arithmetic is done on it here, so the finite ones are
  represented by the rational they denote (both zeros by \<open>Finite 0\<close>).
\<close>

datatype jsnum = NaN | PosInf | NegInf | Finite rat

datatype jsval =
    Undefined
  | Null
  | Bool bool
  | Num jsnum
  | Str string
  | Arr "jsval list"
  | Obj "(string \<times> jsval) list"

text \<open>ToBoolean: what \<^verbatim>\<open>!v\<close>, \<^verbatim>\<open>v || w\<close> and \<^verbatim>\<open>v && w\<close> test.\<close>

fun truthy :: "jsval \<Rightarrow> bool" where
  "truthy Undefined = False"
| "truthy Null = False"
| "truthy (Bool b) = b"
| "truthy (Num n) = (n \<noteq> NaN \<and> n \<noteq> Finite 0)"
| "truthy (Str s) = (s \<noteq> [])"
| "truthy (Arr xs) = True"
| "truthy (Obj kvs) = True"

text \<open>\<^verbatim>\<open>a || b\<close>\<close>

definition js_or :: "jsval \<Rightarrow> jsval \<Rightarrow> jsval" where
  "js_or a b = (if truthy a then a else b)"

text \<open>\<^verbatim>\<open>v === n\<close> for a number literal \<open>n\<close> such as 409.\<close>

definition strict_eq_nat :: "jsval \<Rightarrow> nat \<Rightarrow> bool" where
  "strict_eq_nat v n = (v = Num (Finite (of_nat n)))"

text \<open>\<^verbatim>\<open>Number.isInteger(v)\<close>: a finite number with no fractional part.\<close>

fun isInteger :: "jsval \<Rightarrow> bool" where
  "isInteger (Num (Finite q)) = (of_int \<lfloor>q\<rfloor> = q)"
| "isInteger v = False"

subsection \<open>Objects\<close>

text \<open>
  An object literal is its list of properties in insertion order. Reading an absent
  property gives \<^verbatim>\<open>undefined\<close>; \<^verbatim>\<open>{...prev, [k]: v}\<close> overwrites \<open>k\<close> in place when
  it is there and appends it otherwise.
\<close>

type_synonym jsobj = "(string \<times> jsval) list"

definition obj_get :: "jsobj \<Rightarrow> string \<Rightarrow> jsval" where
  "obj_get obj k = (case map_of obj k of None \<Rightarrow> Undefined | Some v \<Rightarrow> v)"

fun obj_set :: "string \<Rightarrow> jsval \<Rightarrow> jsobj \<Rightarrow> jsobj" where
  "obj_set k v [] = [(k, v)]"
| "obj_set k v (p # ps) = (if fst p = k then (k, v) # ps else p # obj_set k v ps)"

subsection \<open>\<^verbatim>\<open>Number(value)\<close> on a string\<close>

text \<open>
  \<^verbatim>\<open>Number\<close> applied to a string is ECMAScript's StringToNumber. Three fragments of it
  are computed here, each exactly:
  \<^item> the empty string is 0;
  \<^item> a string of at most 15 decimal digits is the integer it writes (below \<open>2^53\<close>,
    so the double is that integer);
  \<^item> a string whose first character is an ASCII letter other than \<open>I\<close> is no numeric
    literal (one starts with white space, a sign, a digit, a dot or \<open>Infinity\<close>), so
    it is \<open>NaN\<close>.
  Every other string (white space, signs, fractions, exponents, hexadecimal, long digit
  strings) is left to \<open>engine\<close>, the host's conversion, which the functions below take
  as a parameter.
\<close>

definition is_digit :: "char \<Rightarrow> bool" where
  "is_digit c = (c \<in> set ''0123456789'')"

definition is_letter :: "char \<Rightarrow> bool" where
  "is_letter c = (c \<in> set ''abcdefghijklmnopqrstuvwxyzABCDEFGHIJKLMNOPQRSTUVWXYZ'')"

fun digits_value :: "nat \<Rightarrow> string \<Rightarrow> nat" where
  "digits_value acc [] = acc"
| "digits_value acc (c # cs) = digits_value (10 * acc + (of_char c - 48)) cs"

definition js_Number :: "(string \<Rightarrow> jsnum) \<Rightarrow> string \<Rightarrow> jsnum" where
  "js_Number engine s =
     (if s = [] then Finite 0
      else if list_all is_digit s \<and> length s \<le> 15 then Finite (of_nat (digits_value 0 s))
      else if is_letter (hd s) \<and> hd s \<noteq> CHR ''I'' then NaN
      else engine s)"

section \<open>The form state and what the handlers do to the outside\<close>

text \<open>A selected file: its name and its media type (\<^verbatim>\<open>file.type\<close>).\<close>

datatype image_file = File (file_name: string) (file_type: string)

text \<open>
  The user-facing texts are Spanish and carry accents; each is a constructor here.
  \<^item> \<open>MsgSelectCategory\<close>: "Debes seleccionar una categoria."
  \<^item> \<open>MsgAddImage\<close>: "Debes agregar al menos una imagen."
  \<^item> \<open>MsgNotUploaded\<close>: "Las imagenes aun no se han subido correctamente."
  \<^item> \<open>MsgExists\<close>: "El instrumento ya existe. Intenta con otro nombre."
  \<^item> \<open>MsgInvalid\<close>: "Datos invalidos. Revisa el formulario."
  \<^item> \<open>MsgServer\<close>: "Error en el servidor. Intentalo mas tarde."
  \<^item> \<open>MsgRaw v\<close>: \<^verbatim>\<open>error.message\<close> itself.
  \<^item> \<open>MsgFallbackUpdate\<close>, \<open>MsgFallbackCreate\<close>: "Error al actualizar la categoria el
    instrumento." and "Error al crear el instrumento."
  \<^item> \<open>MsgUpdated\<close>: "Categoria del instrumento actualizada con exito."
  \<^item> \<open>MsgCreated\<close>: "Instrumento agregado con exito."
  \<^item> \<open>MsgMaxFive\<close>: "Maximo 5 imagenes permitidas"
  \<^item> \<open>MsgOnlyImages\<close>: "Solo se permiten archivos de imagen"
  \<^item> \<open>MsgUploadError\<close>: "Error al subir imagen"
\<close>

datatype message =
    MsgSelectCategory | MsgAddImage | MsgNotUploaded
  | MsgExists | MsgInvalid | MsgServer | MsgRaw jsval
  | MsgFallbackUpdate | MsgFallbackCreate
  | MsgUpdated | MsgCreated
  | MsgMaxFive | MsgOnlyImages | MsgUploadError

datatype request = UpdateInstrument jsobj | CreateInstrument jsobj

text \<open>
  Everything a handler does beyond updating React state, in the order it happens:
  \<^verbatim>\<open>e.preventDefault()\<close>, toasts, \<^verbatim>\<open>alert\<close>, \<^verbatim>\<open>console.error\<close>,
  \<^verbatim>\<open>URL.revokeObjectURL\<close>, the requests of \<^verbatim>\<open>instrumentService\<close>, the multipart
  upload, the context callbacks and the parent's \<^verbatim>\<open>onClose\<close>.
\<close>

datatype effect =
    PreventDefault
  | ErrorToast message
  | SuccessToast message
  | Alert message
  | ConsoleError
  | Revoke string
  | Request request
  | UploadRequest image_file
  | ContextAdd jsval
  | ContextUpdate jsval
  | OnClose

text \<open>
  The \<^verbatim>\<open>useState\<close> cells of the hook that its handlers write, \<^verbatim>\<open>isUploading\<close> of the
  uploader component, and the effects so far. (\<open>categories\<close>, reference data fetched on
  mount and written by no handler, is left out.) URLs are strings: previews come from
  \<^verbatim>\<open>instrumentToEdit.imageUrls\<close> and from \<^verbatim>\<open>response.secureUrl\<close>.
\<close>

record state =
  formData :: jsobj
  imageFiles :: "image_file list"
  imagePreviews :: "string list"
  existingImages :: "string list"
  imageData :: "jsobj list"
  initialLoad :: bool
  isUploading :: bool
  trace :: "effect list"

definition emit :: "effect \<Rightarrow> state \<Rightarrow> state" where
  "emit e st = st\<lparr>trace := trace st @ [e]\<rparr>"

text \<open>The record a form is opened on: its scalar fields, and \<^verbatim>\<open>imageUrls\<close> when present.\<close>

record instrument =
  inst_fields :: jsobj
  inst_imageUrls :: "string list option"

text \<open>The object literal of \<^verbatim>\<open>useState\<close> and of \<^verbatim>\<open>resetForm\<close>.\<close>

definition emptyFormData :: jsobj where
  "emptyFormData =
     [(''name'', Str ''''), (''brand'', Str ''''), (''model'', Str ''''),
      (''year'', Str ''''), (''stock'', Str ''''), (''description'', Str ''''),
      (''price'', Str ''''), (''available'', Bool False), (''idCategory'', Str ''''),
      (''imageUrls'', Arr [])]"

definition initialState :: state where
  "initialState =
     \<lparr>formData = emptyFormData, imageFiles = [], imagePreviews = [], existingImages = [],
      imageData = [], initialLoad = True, isUploading = False, trace = []\<rparr>"

subsection \<open>Array helpers\<close>

text \<open>\<^verbatim>\<open>xs.filter((_, i) => i !== index)\<close>, walking the array with its running index.\<close>

fun filter_index_from :: "nat \<Rightarrow> nat \<Rightarrow> 'a list \<Rightarrow> 'a list" where
  "filter_index_from j index [] = []"
| "filter_index_from j index (x # xs) =
     (if j \<noteq> index then x # filter_index_from (Suc j) index xs
      else filter_index_from (Suc j) index xs)"

definition filter_index :: "nat \<Rightarrow> 'a list \<Rightarrow> 'a list" where
  "filter_index index xs = filter_index_from 0 index xs"

text \<open>
  \<^verbatim>\<open>imagePreviews.forEach(url => { if (url.startsWith("blob:")) URL.revokeObjectURL(url) })\<close>:
  the revocations it performs, in order.
\<close>

fun revokeBlobs :: "string list \<Rightarrow> effect list" where
  "revokeBlobs [] = []"
| "revokeBlobs (url # urls) =
     (if prefix ''blob:'' url then Revoke url # revokeBlobs urls else revokeBlobs urls)"

section \<open>The hook \<^verbatim>\<open>useInstrumentForm\<close>\<close>

subsection \<open>Effects\<close>

text \<open>
  Edit-mode hydration (the second \<^verbatim>\<open>useEffect\<close>). \<^verbatim>\<open>isEditMode\<close> is
  \<^verbatim>\<open>!!instrumentToEdit\<close>, so the guard is: a record is given and \<open>initialLoad\<close> is set.
\<close>

definition hydrateEffect :: "instrument option \<Rightarrow> state \<Rightarrow> state" where
  "hydrateEffect instrumentToEdit st =
     (case instrumentToEdit of
        None \<Rightarrow> st
      | Some i \<Rightarrow>
          if initialLoad st then
            let fld = obj_get (inst_fields i);
                st1 = st\<lparr>formData :=
                  [(''id'', js_or (fld ''id'') (fld ''idProduct'')),
                   (''name'', js_or (fld ''name'') (Str '''')),
                   (''brand'', js_or (fld ''brand'') (Str '''')),
                   (''model'', js_or (fld ''model'') (Str '''')),
                   (''year'', js_or (fld ''year'') (Str '''')),
                   (''stock'', js_or (fld ''stock'') (Str '''')),
                   (''description'', js_or (fld ''description'') (Str '''')),
                   (''price'', js_or (fld ''price'') (Str '''')),
                   (''available'', js_or (fld ''available'') (Bool False)),
                   (''idCategory'', js_or (fld ''idCategory'') (Str '''')),
                   (''imageUrls'', Arr [])]\<rparr>;
                st2 = (case inst_imageUrls i of
                         None \<Rightarrow> st1
                       | Some urls \<Rightarrow>
                           if length urls > 0 then
                             st1\<lparr>existingImages := urls, imagePreviews := urls,
                                 imageData := map (\<lambda>url. [(''url'', Str url)]) urls\<rparr>
                           else st1)
            in st2\<lparr>initialLoad := False\<rparr>
          else st)"


subsection \<open>Handlers\<close>

record input_event =
  ev_name :: string
  ev_value :: string
  ev_type :: string
  ev_checked :: bool

definition handleInputChange ::
  "(string \<Rightarrow> jsnum) \<Rightarrow> bool \<Rightarrow> input_event \<Rightarrow> state \<Rightarrow> state" where
  "handleInputChange engine isEditMode e st =
     (if isEditMode \<and> ev_name e \<noteq> ''idCategory'' then st
      else st\<lparr>formData :=
        obj_set (ev_name e)
          (if ev_type e = ''checkbox'' then Bool (ev_checked e)
           else if ev_name e = ''idCategory'' then Num (js_Number engine (ev_value e))
           else if ev_name e = ''available'' then Bool (ev_value e = ''true'')
           else Str (ev_value e))
          (formData st)\<rparr>)"

text \<open>
  \<^verbatim>\<open>removeImage(index)\<close>. Nothing in the \<^verbatim>\<open>try\<close> block can raise on these types
  (\<^verbatim>\<open>imagePreviews[index]\<close> out of range is \<^verbatim>\<open>undefined\<close>, which the \<^verbatim>\<open>&&\<close> guards),
  so the \<^verbatim>\<open>catch\<close> branch is never entered.
\<close>

definition removeImage :: "bool \<Rightarrow> nat \<Rightarrow> state \<Rightarrow> state" where
  "removeImage isEditMode index st =
     (if isEditMode then st
      else if index < length (existingImages st) then
        let imageUrl = existingImages st ! index in
          st\<lparr>existingImages := filter_index index (existingImages st),
             imagePreviews := filter (\<lambda>url. url \<noteq> imageUrl) (imagePreviews st),
             imageData := filter_index index (imageData st)\<rparr>
      else
        let newIndex = index - length (existingImages st);
            st1 = (if index < length (imagePreviews st) \<and> imagePreviews st ! index \<noteq> []
                      \<and> prefix ''blob:'' (imagePreviews st ! index)
                   then emit (Revoke (imagePreviews st ! index)) st else st)
        in st1\<lparr>imageFiles := filter_index newIndex (imageFiles st1),
               imagePreviews := filter_index index (imagePreviews st1),
               imageData := filter_index index (imageData st1)\<rparr>)"

definition resetForm :: "state \<Rightarrow> state" where
  "resetForm st =
     st\<lparr>trace := trace st @ revokeBlobs (imagePreviews st),
        formData := emptyFormData,
        imageFiles := [], imagePreviews := [], existingImages := [], imageData := []\<rparr>"

definition handleClose :: "state \<Rightarrow> state" where
  "handleClose st = emit OnClose (resetForm st)"


subsection \<open>Submission\<close>

text \<open>
  What a rejected request carries for the \<^verbatim>\<open>catch\<close> block: \<^verbatim>\<open>error.response?.status\<close>
  (\<open>Undefined\<close> when there is no response) and \<^verbatim>\<open>error.message\<close>.
\<close>

datatype js_error = JsError (err_status: jsval) (err_message: jsval)

definition submitCatch :: "bool \<Rightarrow> js_error \<Rightarrow> state \<Rightarrow> state" where
  "submitCatch isEditMode error st =
     (let st1 = emit ConsoleError st in
      if strict_eq_nat (err_status error) 409 then emit (ErrorToast MsgExists) st1
      else if strict_eq_nat (err_status error) 400 then emit (ErrorToast MsgInvalid) st1
      else if strict_eq_nat (err_status error) 500 then emit (ErrorToast MsgServer) st1
      else emit (ErrorToast
                  (if truthy (err_message error) then MsgRaw (err_message error)
                   else if isEditMode then MsgFallbackUpdate else MsgFallbackCreate)) st1)"

text \<open>
  \<^verbatim>\<open>handleSubmit\<close>. \<open>service\<close> is \<^verbatim>\<open>instrumentService\<close>: the outcome of awaiting
  each request. \<open>addInstrument\<close> and \<open>updateInstrument\<close> say whether the context
  supplies these callbacks (the code tests them before calling). The handler runs
  from the render it was created in, with no other event in between; the callbacks
  and \<^verbatim>\<open>onClose\<close> return normally.
\<close>

definition handleSubmit ::
  "(request \<Rightarrow> js_error + jsval) \<Rightarrow> bool \<Rightarrow> bool \<Rightarrow> bool \<Rightarrow> state \<Rightarrow> state" where
  "handleSubmit service addInstrument updateInstrument isEditMode st =
     (let st0 = emit PreventDefault st in
      if \<not> truthy (obj_get (formData st0) ''idCategory'') then
        emit (ErrorToast MsgSelectCategory) st0
      else if isEditMode then
        let categoryUpdateData =
              [(''id'', obj_get (formData st0) ''id''),
               (''idCategory'', obj_get (formData st0) ''idCategory'')];
            st1 = emit (Request (UpdateInstrument categoryUpdateData)) st0
        in case service (UpdateInstrument categoryUpdateData) of
             Inl error \<Rightarrow> submitCatch isEditMode error st1
           | Inr updatedInstrument \<Rightarrow>
               handleClose (emit (SuccessToast MsgUpdated)
                 (if updateInstrument then emit (ContextUpdate updatedInstrument) st1
                  else st1))
      else if length (imageData st0) = 0 \<and> length (imageFiles st0) = 0 then
        emit (ErrorToast MsgAddImage) st0
      else if length (imageData st0) > 0 then
        let imageUrls = map (\<lambda>img. obj_get img ''url'') (imageData st0);
            payload = obj_set ''imageUrls'' (Arr imageUrls) (formData st0);
            st1 = emit (Request (CreateInstrument payload)) st0
        in case service (CreateInstrument payload) of
             Inl error \<Rightarrow> submitCatch isEditMode error st1
           | Inr newInstrument \<Rightarrow>
               handleClose (emit (SuccessToast MsgCreated)
                 (if addInstrument then emit (ContextAdd newInstrument) st1 else st1))
      else emit (ErrorToast MsgNotUploaded) st0)"

section \<open>\<^verbatim>\<open>cloudinaryService\<close> and the \<^verbatim>\<open>ImageUploader\<close> component\<close>

text \<open>The body of the backend's answer to an upload.\<close>

datatype upload_response =
  UploadResponse (secureUrl: string) (publicId: jsval) (width: jsval) (height: jsval)
    (format: jsval)

text \<open>
  \<^verbatim>\<open>uploadImageViaBackend(file)\<close>: one multipart POST; a failure is logged and thrown
  again. \<open>post k file\<close> is the outcome of the \<open>k\<close>-th POST of the batch.
\<close>

definition uploadImageViaBackend ::
  "(nat \<Rightarrow> image_file \<Rightarrow> js_error + upload_response) \<Rightarrow> nat \<Rightarrow> image_file \<Rightarrow> state
     \<Rightarrow> (js_error + upload_response) \<times> state" where
  "uploadImageViaBackend post k file st =
     (case post k file of
        Inl error \<Rightarrow> (Inl error, emit ConsoleError (emit (UploadRequest file) st))
      | Inr data \<Rightarrow> (Inr data, emit (UploadRequest file) st))"

text \<open>
  The \<^verbatim>\<open>for (const file of validFiles)\<close> loop: it stops at the first upload that
  throws, keeping what the earlier rounds wrote.
\<close>

fun uploadEach ::
  "(nat \<Rightarrow> image_file \<Rightarrow> js_error + upload_response) \<Rightarrow> bool \<Rightarrow> nat \<Rightarrow> image_file list
     \<Rightarrow> state \<Rightarrow> js_error option \<times> state" where
  "uploadEach post setImageData k [] st = (None, st)"
| "uploadEach post setImageData k (file # files) st =
     (case uploadImageViaBackend post k file st of
        (Inl error, st1) \<Rightarrow> (Some error, st1)
      | (Inr response, st1) \<Rightarrow>
          let st2 = st1\<lparr>imagePreviews := imagePreviews st1 @ [secureUrl response]\<rparr>;
              st3 = (if setImageData then
                       st2\<lparr>imageData := imageData st2 @
                         [[(''url'', Str (secureUrl response)),
                           (''publicId'', publicId response),
                           (''width'', width response),
                           (''height'', height response),
                           (''format'', format response)]]\<rparr>
                     else st2)
          in uploadEach post setImageData (Suc k) files st3)"

text \<open>
  \<^verbatim>\<open>handleImageUpload\<close> on the selected \<open>files\<close>. \<open>setImageData\<close> and \<open>setImageFiles\<close>
  say whether the parent passed these optional setters; the hook returns both.
\<close>

definition handleImageUpload ::
  "(nat \<Rightarrow> image_file \<Rightarrow> js_error + upload_response) \<Rightarrow> bool \<Rightarrow> bool \<Rightarrow> bool
     \<Rightarrow> image_file list \<Rightarrow> state \<Rightarrow> state" where
  "handleImageUpload post isEditMode setImageData setImageFiles files st =
     (if isEditMode then st
      else
        let totalImages = length (imagePreviews st) in
        if length files + totalImages > 5 then emit (Alert MsgMaxFive) st
        else
          let validFiles = filter (\<lambda>file. prefix ''image/'' (file_type file)) files in
          if length validFiles \<noteq> length files then emit (Alert MsgOnlyImages) st
          else
            let st1 = st\<lparr>isUploading := True\<rparr>;
                st2 = (if setImageFiles then st1\<lparr>imageFiles := imageFiles st1 @ validFiles\<rparr>
                       else st1);
                st4 = (case uploadEach post setImageData 0 validFiles st2 of
                         (None, st3) \<Rightarrow> st3
                       | (Some error, st3) \<Rightarrow>
                           emit (Alert MsgUploadError) (emit ConsoleError st3))
            in st4\<lparr>isUploading := False\<rparr>)"

section \<open>Runs of the form and concrete inputs\<close>

text \<open>The requests a trace holds, in order.\<close>

fun requests :: "effect list \<Rightarrow> request list" where
  "requests [] = []"
| "requests (Request r # es) = r # requests es"
| "requests (e # es) = requests es"

text \<open>A sequence of field edits, each handed to \<^verbatim>\<open>handleInputChange\<close>.\<close>

fun applyEdits :: "(string \<Rightarrow> jsnum) \<Rightarrow> bool \<Rightarrow> input_event list \<Rightarrow> state \<Rightarrow> state" where
  "applyEdits engine isEditMode [] st = st"
| "applyEdits engine isEditMode (e # es) st =
     applyEdits engine isEditMode es (handleInputChange engine isEditMode e st)"

text \<open>
  The outcomes of the POSTs of one batch, the \<open>j\<close>-th file of the batch being sent by
  the \<open>j\<close>-th POST.
\<close>

definition outcomes ::
  "(nat \<Rightarrow> image_file \<Rightarrow> js_error + upload_response) \<Rightarrow> nat \<Rightarrow> image_file list
     \<Rightarrow> (js_error + upload_response) list" where
  "outcomes post k files = map (\<lambda>(j, file). post j file) (enumerate k files)"







text \<open>
  How often \<open>url\<close> is still listed among the previews as a \<^verbatim>\<open>blob:\<close> handle: 0 for a
  URL that is no such handle.
\<close>

definition pending :: "state \<Rightarrow> string \<Rightarrow> nat" where
  "pending st url = (if prefix ''blob:'' url then count_list (imagePreviews st) url else 0)"

definition no_blob :: "string list \<Rightarrow> bool" where
  "no_blob urls = list_all (\<lambda>url. \<not> prefix ''blob:'' url) urls"





text \<open>The fields that hydration defaults to the empty string.\<close>

definition scalarFields :: "string list" where
  "scalarFields =
     [''name'', ''brand'', ''model'', ''year'', ''stock'', ''description'', ''price'',
      ''idCategory'']"

subsection \<open>Concrete inputs\<close>

definition exampleRecord :: instrument where
  "exampleRecord =
     \<lparr>inst_fields = [(''id'', Num (Finite 7)), (''idCategory'', Num (Finite 2))],
      inst_imageUrls = Some [''http://a/1.png'']\<rparr>"

definition editState :: state where
  "editState = hydrateEffect (Some exampleRecord) initialState"

definition uncategorisedRecord :: instrument where
  "uncategorisedRecord =
     \<lparr>inst_fields = [(''id'', Num (Finite 7)), (''name'', Str ''Viola'')],
      inst_imageUrls = None\<rparr>"

definition wornRecord :: instrument where
  "wornRecord =
     \<lparr>inst_fields = [(''idProduct'', Num (Finite 9)), (''name'', Str ''Oboe''),
                     (''year'', Num (Finite 0)), (''stock'', Num (Finite 0)),
                     (''idCategory'', Num (Finite 3))],
      inst_imageUrls = Some []\<rparr>"

definition blobState :: state where
  "blobState =
     initialState\<lparr>imageFiles := [File ''a.png'' ''image/png'', File ''b.png'' ''image/png''],
                  imagePreviews := [''blob:1'', ''https://h/2.png''],
                  imageData := [[(''url'', Str ''blob:1'')],
                                [(''url'', Str ''https://h/2.png'')]],
                  initialLoad := False\<rparr>"

definition readyState :: state where
  "readyState =
     initialState\<lparr>formData := obj_set ''idCategory'' (Num (Finite 2)) emptyFormData,
                  imagePreviews := [''https://h/1.png''],
                  imageData := [[(''url'', Str ''https://h/1.png'')]],
                  initialLoad := False\<rparr>"

definition noImagesState :: state where
  "noImagesState =
     initialState\<lparr>formData := obj_set ''idCategory'' (Num (Finite 2)) emptyFormData,
                  initialLoad := False\<rparr>"

definition filesOnlyState :: state where
  "filesOnlyState = noImagesState\<lparr>imageFiles := [File ''a.png'' ''image/png'']\<rparr>"

definition failWith :: "jsval \<Rightarrow> jsval \<Rightarrow> request \<Rightarrow> js_error + jsval" where
  "failWith status msg r = Inl (JsError status msg)"

definition renameEdit :: input_event where
  "renameEdit =
     \<lparr>ev_name = ''name'', ev_value = ''Cello'', ev_type = ''text'', ev_checked = False\<rparr>"

definition idEdit :: input_event where
  "idEdit = \<lparr>ev_name = ''id'', ev_value = ''99'', ev_type = ''text'', ev_checked = False\<rparr>"

definition categoryEdit :: input_event where
  "categoryEdit =
     \<lparr>ev_name = ''idCategory'', ev_value = ''5'', ev_type = ''select-one'',
      ev_checked = False\<rparr>"

definition badCategoryEdit :: input_event where
  "badCategoryEdit =
     \<lparr>ev_name = ''idCategory'', ev_value = ''abc'', ev_type = ''select-one'',
      ev_checked = False\<rparr>"

definition sixFiles :: "image_file list" where
  "sixFiles = map (\<lambda>n. File n ''image/png'') [''a'', ''b'', ''c'', ''d'', ''e'', ''f'']"

definition threeFiles :: "image_file list" where
  "threeFiles =
     [File ''a.png'' ''image/png'', File ''b.jpg'' ''image/jpeg'', File ''c.gif'' ''image/gif'']"

definition threeResponses :: "upload_response list" where
  "threeResponses =
     [UploadResponse ''https://h/a'' (Str ''pa'') (Num (Finite 10)) (Num (Finite 20)) (Str ''png''),
      UploadResponse ''https://h/b'' (Str ''pb'') (Num (Finite 30)) (Num (Finite 40)) (Str ''jpg''),
      UploadResponse ''https://h/c'' (Str ''pc'') (Num (Finite 50)) (Num (Finite 60)) (Str ''gif'')]"

definition backendOk :: "nat \<Rightarrow> image_file \<Rightarrow> js_error + upload_response" where
  "backendOk k f =
     (if k < length threeResponses then Inr (threeResponses ! k)
      else Inl (JsError Undefined (Str ''Network Error'')))"

definition backendFailsSecond :: "nat \<Rightarrow> image_file \<Rightarrow> js_error + upload_response" where
  "backendFailsSecond k f =
     (if k < 1 then Inr (threeResponses ! k)
      else Inl (JsError (Num (Finite 500)) (Str ''Request failed with status code 500'')))"



section \<open>Lemmas about the helpers\<close>

lemma obj_get_obj_set: "obj_get (obj_set k v obj) k' = (if k' = k then v else obj_get obj k')"
  by (induction obj) (auto simp: obj_get_def)

lemma obj_get_Cons: "obj_get ((k, v) # kvs) k' = (if k' = k then v else obj_get kvs k')"
  by (simp add: obj_get_def)

lemma requests_append: "requests (xs @ ys) = requests xs @ requests ys"
  by (induction xs rule: requests.induct) simp_all

lemma requests_revokeBlobs: "requests (revokeBlobs urls) = []"
  by (induction urls) simp_all

lemma filter_index_from_past: "index < j \<Longrightarrow> filter_index_from j index xs = xs"
  by (induction xs arbitrary: j) simp_all

lemma filter_index_from_take_drop:
  "j \<le> index \<Longrightarrow>
   filter_index_from j index xs = take (index - j) xs @ drop (Suc (index - j)) xs"
proof (induction xs arbitrary: j)
  case Nil
  then show ?case by simp
next
  case (Cons x xs)
  show ?case
  proof (cases "j = index")
    case True
    then show ?thesis by (simp add: filter_index_from_past)
  next
    case False
    with Cons.prems have lt: "Suc j \<le> index" by simp
    then obtain d where d: "index - j = Suc d" "index - Suc j = d"
      by (metis Suc_diff_le diff_Suc_Suc)
    show ?thesis using False Cons.IH [OF lt] d by simp
  qed
qed

lemma filter_index_take_drop: "filter_index index xs = take index xs @ drop (Suc index) xs"
  by (simp add: filter_index_def filter_index_from_take_drop)


lemma length_filter_neq_count:
  "length (filter (\<lambda>y. y \<noteq> x) xs) + count_list xs x = length xs"
  by (induction xs) simp_all



lemma filter_length_neq:
  "x \<in> set xs \<Longrightarrow> \<not> P x \<Longrightarrow> length (filter P xs) \<noteq> length xs"
  using length_filter_less [of x xs P] by simp

lemma editState_fields:
  "imagePreviews editState = [''http://a/1.png'']"
  "imageData editState = [[(''url'', Str ''http://a/1.png'')]]"
  "existingImages editState = [''http://a/1.png'']"
  "formData editState =
     [(''id'', Num (Finite 7)), (''name'', Str ''''), (''brand'', Str ''''),
      (''model'', Str ''''), (''year'', Str ''''), (''stock'', Str ''''),
      (''description'', Str ''''), (''price'', Str ''''), (''available'', Bool False),
      (''idCategory'', Num (Finite 2)), (''imageUrls'', Arr [])]"
  "trace editState = []"
  by (simp_all add: editState_def exampleRecord_def hydrateEffect_def initialState_def
      Let_def obj_get_def js_or_def)

section \<open>Removing an image\<close>

text \<open>
  Claim C1, as amended. In create mode, for every index in range of \<open>imagePreviews\<close>
  and \<open>imageData\<close>, \<^verbatim>\<open>removeImage(index)\<close> removes exactly the entry at \<open>index\<close> from
  \<open>imageData\<close>. When the index is at or beyond the existing-images count, it removes
  exactly the entry at \<open>index\<close> from \<open>imagePreviews\<close>, the entry at \<open>index\<close> minus the
  existing-images count from \<open>imageFiles\<close>, and revokes the preview at \<open>index\<close> when it
  starts with \<^verbatim>\<open>blob:\<close>. When the index is within the existing-images prefix, it
  removes that entry of \<open>existingImages\<close> and every preview equal to its URL, so the
  previews lose as many entries as that URL occurs among them (one when it occurs
  once); nothing is revoked and no file is dropped. No branch reports an error: the
  only effect is the revocation. In edit mode \<^verbatim>\<open>removeImage\<close> changes nothing.
\<close>

theorem removeImage_shortens:
  assumes "index < length (imagePreviews st)" and "index < length (imageData st)"
  shows "removeImage True index st = st \<and>
         imageData (removeImage False index st) =
           take index (imageData st) @ drop (Suc index) (imageData st) \<and>
         length (imageData (removeImage False index st)) + 1 = length (imageData st) \<and>
         (index < length (existingImages st) \<longrightarrow>
            existingImages (removeImage False index st) =
              take index (existingImages st) @ drop (Suc index) (existingImages st) \<and>
            imagePreviews (removeImage False index st) =
              filter (\<lambda>url. url \<noteq> existingImages st ! index) (imagePreviews st) \<and>
            length (imagePreviews (removeImage False index st)) +
              count_list (imagePreviews st) (existingImages st ! index) =
                length (imagePreviews st) \<and>
            imageFiles (removeImage False index st) = imageFiles st \<and>
            trace (removeImage False index st) = trace st) \<and>
         (length (existingImages st) \<le> index \<longrightarrow>
            imagePreviews (removeImage False index st) =
              take index (imagePreviews st) @ drop (Suc index) (imagePreviews st) \<and>
            length (imagePreviews (removeImage False index st)) + 1 =
              length (imagePreviews st) \<and>
            imageFiles (removeImage False index st) =
              take (index - length (existingImages st)) (imageFiles st) @
              drop (Suc (index - length (existingImages st))) (imageFiles st) \<and>
            existingImages (removeImage False index st) = existingImages st \<and>
            trace (removeImage False index st) =
              trace st @ (if prefix ''blob:'' (imagePreviews st ! index)
                          then [Revoke (imagePreviews st ! index)] else []))"
  using assms
  by (auto simp: removeImage_def Let_def emit_def filter_index_take_drop
      length_filter_neq_count)

text \<open>
  Claim C1 at two concrete inputs in create mode: a new image at index 0, previewed
  through a \<^verbatim>\<open>blob:\<close> handle, is removed from all three arrays and its handle is
  revoked; an existing image at index 0 is removed by its URL and nothing is revoked.
\<close>

theorem removeImage_shortens_witness:
  "0 < length (imagePreviews blobState) \<and> 0 < length (imageData blobState) \<and>
   imagePreviews (removeImage False 0 blobState) = [''https://h/2.png''] \<and>
   imageData (removeImage False 0 blobState) = [[(''url'', Str ''https://h/2.png'')]] \<and>
   imageFiles (removeImage False 0 blobState) = [File ''b.png'' ''image/png''] \<and>
   trace (removeImage False 0 blobState) = [Revoke ''blob:1''] \<and>
   0 < length (imagePreviews editState) \<and> 0 < length (imageData editState) \<and>
   0 < length (existingImages editState) \<and>
   imagePreviews (removeImage False 0 editState) = [] \<and>
   imageData (removeImage False 0 editState) = [] \<and>
   existingImages (removeImage False 0 editState) = [] \<and>
   trace (removeImage False 0 editState) = []"
  using removeImage_shortens [of 0 blobState] removeImage_shortens [of 0 editState]
  by (simp add: blobState_def initialState_def editState_fields)

text \<open>
  Claim C1 as stated fails in edit mode: on the form opened on the record
  \<^verbatim>\<open>{id: 7, idCategory: 2, imageUrls: ["http://a/1.png"]}\<close>, index 0 is in range of
  both arrays and \<^verbatim>\<open>removeImage(0)\<close> returns at its first line, so neither array gets
  shorter.
\<close>

theorem removeImage_edit_mode_counterexample:
  "0 < length (imagePreviews editState) \<and> 0 < length (imageData editState) \<and>
   length (imagePreviews (removeImage True 0 editState)) = length (imagePreviews editState) \<and>
   length (imageData (removeImage True 0 editState)) = length (imageData editState)"
  by (simp add: removeImage_def editState_fields)

section \<open>Releasing preview handles\<close>



lemma no_blob_count: "no_blob urls \<Longrightarrow> prefix ''blob:'' url \<Longrightarrow> count_list urls url = 0"
  by (auto simp: no_blob_def list_all_iff count_list_0_iff)



lemma no_blob_pending: "no_blob (imagePreviews st) \<Longrightarrow> pending st url = 0"
  by (simp add: pending_def no_blob_count)




























section \<open>Submitting the form\<close>

lemma applyEdits_edit_mode:
  "trace (applyEdits engine True es st) = trace st \<and>
   (k \<noteq> ''idCategory'' \<longrightarrow>
      obj_get (formData (applyEdits engine True es st)) k = obj_get (formData st) k)"
  by (induction es arbitrary: st) (auto simp: handleInputChange_def obj_get_obj_set)

lemma requests_handleClose: "requests (trace (handleClose st)) = requests (trace st)"
  by (simp add: handleClose_def resetForm_def emit_def requests_append requests_revokeBlobs)

lemma requests_submitCatch:
  "requests (trace (submitCatch isEditMode error st)) = requests (trace st)"
  by (simp add: submitCatch_def emit_def Let_def requests_append)

text \<open>
  Claim C3, as amended. For every form state in edit mode in which a category is
  selected (\<^verbatim>\<open>formData.idCategory\<close> is truthy), submit sends exactly one request, to the
  update endpoint, whose payload is exactly \<^verbatim>\<open>{id, idCategory}\<close>: the \<open>id\<close> the form had
  before any field edit was attempted, and the category as last selected. Whether the
  request succeeds or fails, no other request follows. With no category selected,
  submit sends nothing and reports the missing category.
\<close>

theorem handleSubmit_edit_payload:
  assumes "st' = applyEdits engine True edits st"
  shows "(truthy (obj_get (formData st') ''idCategory'') \<longrightarrow>
            requests (trace (handleSubmit service addInstrument updateInstrument True st')) =
              requests (trace st) @
                [UpdateInstrument [(''id'', obj_get (formData st) ''id''),
                                   (''idCategory'', obj_get (formData st') ''idCategory'')]])
       \<and> (\<not> truthy (obj_get (formData st') ''idCategory'') \<longrightarrow>
            trace (handleSubmit service addInstrument updateInstrument True st') =
              trace st @ [PreventDefault, ErrorToast MsgSelectCategory])"
proof -
  have tr: "trace st' = trace st"
    and idk: "obj_get (formData st') ''id'' = obj_get (formData st) ''id''"
    using assms applyEdits_edit_mode [of engine edits st "''id''"] by simp_all
  have sent: "requests (trace (handleSubmit service addInstrument updateInstrument True st')) =
              requests (trace st) @
                [UpdateInstrument [(''id'', obj_get (formData st) ''id''),
                                   (''idCategory'', obj_get (formData st') ''idCategory'')]]"
    if "truthy (obj_get (formData st') ''idCategory'')"
    using that tr idk
    by (cases "service (UpdateInstrument
                 [(''id'', obj_get (formData st) ''id''),
                  (''idCategory'', obj_get (formData st') ''idCategory'')])")
       (simp_all add: handleSubmit_def Let_def requests_handleClose requests_submitCatch
          emit_def requests_append)
  have unsent: "trace (handleSubmit service addInstrument updateInstrument True st') =
              trace st @ [PreventDefault, ErrorToast MsgSelectCategory]"
    if "\<not> truthy (obj_get (formData st') ''idCategory'')"
    using that tr by (simp add: handleSubmit_def Let_def emit_def)
  show ?thesis using sent unsent by blast
qed

text \<open>
  Claim C3 at a concrete input: on the form opened on record 7, a rename and an edit
  of \<open>id\<close> are attempted, category 5 is selected, and the update succeeds. The one
  request is the update with \<^verbatim>\<open>{id: 7, idCategory: 5}\<close>.
\<close>

theorem handleSubmit_edit_payload_witness:
  "truthy (obj_get (formData
      (applyEdits (\<lambda>s. NaN) True [renameEdit, idEdit, categoryEdit] editState)) ''idCategory'') \<and>
   requests (trace (handleSubmit (\<lambda>r. Inr Null) True True True
       (applyEdits (\<lambda>s. NaN) True [renameEdit, idEdit, categoryEdit] editState))) =
     [UpdateInstrument [(''id'', Num (Finite 7)), (''idCategory'', Num (Finite 5))]]"
  using handleSubmit_edit_payload
          [of "applyEdits (\<lambda>s. NaN) True [renameEdit, idEdit, categoryEdit] editState"
              "\<lambda>s. NaN" "[renameEdit, idEdit, categoryEdit]" editState "\<lambda>r. Inr Null" True True]
  by (simp add: editState_fields obj_get_def obj_get_obj_set handleInputChange_def
      renameEdit_def idEdit_def categoryEdit_def js_Number_def is_digit_def)

text \<open>
  Claim C3 as stated fails for an edit-mode form with no category: opened on a record
  that has none, \<^verbatim>\<open>formData.idCategory\<close> is the empty string, and submit stops at the
  category check without sending anything.
\<close>

theorem handleSubmit_edit_no_category_counterexample:
  "requests (trace (handleSubmit (\<lambda>r. Inr Null) True True True
      (hydrateEffect (Some uncategorisedRecord) initialState))) = []"
  by (simp add: handleSubmit_def hydrateEffect_def uncategorisedRecord_def initialState_def
      Let_def obj_get_def js_or_def emit_def)

text \<open>
  Claim C4. In create mode with a category selected and no image metadata, submit
  adds nothing but \<^verbatim>\<open>preventDefault\<close> and one error toast, and leaves the state as it
  was: the toast is "must add at least one image" when there are no raw files either,
  and the distinct "images not yet uploaded" when raw files exist. In both cases no
  request is issued.
\<close>

theorem handleSubmit_create_without_images:
  assumes "truthy (obj_get (formData st) ''idCategory'')" and "imageData st = []"
  shows "handleSubmit service addInstrument updateInstrument False st =
           st\<lparr>trace := trace st @
             [PreventDefault,
              ErrorToast (if imageFiles st = [] then MsgAddImage else MsgNotUploaded)]\<rparr>
         \<and> requests (trace (handleSubmit service addInstrument updateInstrument False st)) =
             requests (trace st)"
  using assms by (simp add: handleSubmit_def emit_def Let_def requests_append)

text \<open>Claim C4 at two concrete inputs: no image at all, and one raw file without metadata.\<close>

theorem handleSubmit_create_without_images_witness:
  "truthy (obj_get (formData noImagesState) ''idCategory'') \<and> imageData noImagesState = [] \<and>
   trace (handleSubmit (\<lambda>r. Inr Null) True True False noImagesState) =
     [PreventDefault, ErrorToast MsgAddImage] \<and>
   truthy (obj_get (formData filesOnlyState) ''idCategory'') \<and> imageData filesOnlyState = [] \<and>
   trace (handleSubmit (\<lambda>r. Inr Null) True True False filesOnlyState) =
     [PreventDefault, ErrorToast MsgNotUploaded]"
  using handleSubmit_create_without_images [of noImagesState "\<lambda>r. Inr Null" True True]
    handleSubmit_create_without_images [of filesOnlyState "\<lambda>r. Inr Null" True True]
  by (simp add: filesOnlyState_def noImagesState_def initialState_def emptyFormData_def
      obj_get_def)

text \<open>
  Claim C8, as amended. When the create request fails, the handler logs the error and
  shows one error toast, and the form is neither closed nor reset (the state is as
  before the submit): status 409 gives the "already exists" message, 400 the
  invalid-data message, 500 the server-error message; any other failure gives the raw
  \<^verbatim>\<open>error.message\<close> when that is non-empty (truthy), and the generic
  "Error al crear el instrumento." otherwise.
\<close>

theorem handleSubmit_create_failure:
  assumes "truthy (obj_get (formData st) ''idCategory'')" and "imageData st \<noteq> []"
    and "payload =
           obj_set ''imageUrls'' (Arr (map (\<lambda>img. obj_get img ''url'') (imageData st)))
             (formData st)"
    and "service (CreateInstrument payload) = Inl error"
  shows "handleSubmit service addInstrument updateInstrument False st =
           st\<lparr>trace := trace st @
             [PreventDefault, Request (CreateInstrument payload), ConsoleError,
              ErrorToast
                (if err_status error = Num (Finite 409) then MsgExists
                 else if err_status error = Num (Finite 400) then MsgInvalid
                 else if err_status error = Num (Finite 500) then MsgServer
                 else if truthy (err_message error) then MsgRaw (err_message error)
                 else MsgFallbackCreate)]\<rparr>"
  using assms
  by (simp add: handleSubmit_def submitCatch_def strict_eq_nat_def emit_def Let_def)

text \<open>
  Claim C8 at two concrete inputs: the create request is answered with status 409, and
  it fails with no response and the message "Network Error".
\<close>

theorem handleSubmit_create_failure_witness:
  "truthy (obj_get (formData readyState) ''idCategory'') \<and> imageData readyState \<noteq> [] \<and>
   handleSubmit (failWith (Num (Finite 409)) (Str ''Request failed with status code 409''))
       True True False readyState =
     readyState\<lparr>trace :=
       [PreventDefault,
        Request (CreateInstrument
          (obj_set ''imageUrls'' (Arr [Str ''https://h/1.png'']) (formData readyState))),
        ConsoleError, ErrorToast MsgExists]\<rparr> \<and>
   handleSubmit (failWith Undefined (Str ''Network Error'')) True True False readyState =
     readyState\<lparr>trace :=
       [PreventDefault,
        Request (CreateInstrument
          (obj_set ''imageUrls'' (Arr [Str ''https://h/1.png'']) (formData readyState))),
        ConsoleError, ErrorToast (MsgRaw (Str ''Network Error''))]\<rparr>"
  using handleSubmit_create_failure
          [of readyState
              "obj_set ''imageUrls'' (Arr [Str ''https://h/1.png'']) (formData readyState)"
              "failWith (Num (Finite 409)) (Str ''Request failed with status code 409'')"
              "JsError (Num (Finite 409)) (Str ''Request failed with status code 409'')"
              True True]
    handleSubmit_create_failure
          [of readyState
              "obj_set ''imageUrls'' (Arr [Str ''https://h/1.png'']) (formData readyState)"
              "failWith Undefined (Str ''Network Error'')"
              "JsError Undefined (Str ''Network Error'')"
              True True]
  by (simp add: failWith_def readyState_def initialState_def emptyFormData_def obj_get_def)

text \<open>
  Claim C8 as stated fails for a failure that carries no response and an empty
  message (as \<^verbatim>\<open>new Error()\<close> does): the toast is not that raw message but the
  generic create text.
\<close>

theorem handleSubmit_fallback_message_counterexample:
  "trace (handleSubmit (failWith Undefined (Str '''')) True True False readyState) =
     [PreventDefault,
      Request (CreateInstrument
        (obj_set ''imageUrls'' (Arr [Str ''https://h/1.png'']) (formData readyState))),
      ConsoleError, ErrorToast MsgFallbackCreate]"
  by (simp add: handleSubmit_def submitCatch_def failWith_def readyState_def
      initialState_def emptyFormData_def obj_get_def emit_def Let_def strict_eq_nat_def)

section \<open>Editing a field\<close>

text \<open>
  Claim C5, as amended. For every field edit in create mode, \<^verbatim>\<open>handleInputChange\<close>
  stores the coerced value under the field's name and leaves every other field as it
  was: a checkbox input becomes its boolean \<open>checked\<close>; otherwise the \<open>idCategory\<close> field
  becomes \<^verbatim>\<open>Number(value)\<close>; otherwise the \<open>available\<close> field becomes the boolean
  \<^verbatim>\<open>value === "true"\<close>; every other field's raw value passes through unchanged.
  \<^verbatim>\<open>Number(value)\<close> is the integer the value writes when the value is a string of at
  most 15 decimal digits (0 for the empty string); it need not be an integer
  otherwise.
\<close>

theorem handleInputChange_coerces:
  "obj_get (formData (handleInputChange engine False e st)) k =
     (if k = ev_name e then
        (if ev_type e = ''checkbox'' then Bool (ev_checked e)
         else if ev_name e = ''idCategory'' then Num (js_Number engine (ev_value e))
         else if ev_name e = ''available'' then Bool (ev_value e = ''true'')
         else Str (ev_value e))
      else obj_get (formData st) k)
   \<and> (list_all is_digit (ev_value e) \<and> length (ev_value e) \<le> 15 \<longrightarrow>
         js_Number engine (ev_value e) = Finite (of_nat (digits_value 0 (ev_value e))) \<and>
         isInteger (Num (js_Number engine (ev_value e))))"
  by (auto simp: handleInputChange_def obj_get_obj_set js_Number_def)

text \<open>Claim C5 at a concrete input: selecting the category whose value is "5".\<close>

theorem handleInputChange_coerces_witness:
  "list_all is_digit (ev_value categoryEdit) \<and> length (ev_value categoryEdit) \<le> 15 \<and>
   obj_get (formData (handleInputChange (\<lambda>s. NaN) False categoryEdit initialState))
     ''idCategory'' = Num (Finite 5) \<and>
   isInteger (Num (js_Number (\<lambda>s. NaN) (ev_value categoryEdit)))"
  using handleInputChange_coerces [of "\<lambda>s. NaN" categoryEdit initialState "''idCategory''"]
  by (simp add: categoryEdit_def is_digit_def)

text \<open>
  Claim C5 as stated fails for the \<open>idCategory\<close> field with the value "abc":
  \<^verbatim>\<open>Number("abc")\<close> is \<^verbatim>\<open>NaN\<close>, which is stored and is not an integer. (The host
  conversion given here is never consulted for this value.)
\<close>

theorem handleInputChange_category_not_integer_counterexample:
  "obj_get (formData (handleInputChange (\<lambda>s. Finite 0) False badCategoryEdit initialState))
     ''idCategory'' = Num NaN \<and>
   \<not> isInteger
       (obj_get (formData (handleInputChange (\<lambda>s. Finite 0) False badCategoryEdit initialState))
          ''idCategory'')"
  by (simp add: handleInputChange_def obj_get_obj_set js_Number_def is_digit_def
      is_letter_def badCategoryEdit_def)

section \<open>Opening the form on a record\<close>

lemma hydrateEffect_formData:
  assumes "initialLoad st"
  shows "formData (hydrateEffect (Some i) st) =
     [(''id'', js_or (obj_get (inst_fields i) ''id'') (obj_get (inst_fields i) ''idProduct'')),
      (''name'', js_or (obj_get (inst_fields i) ''name'') (Str '''')),
      (''brand'', js_or (obj_get (inst_fields i) ''brand'') (Str '''')),
      (''model'', js_or (obj_get (inst_fields i) ''model'') (Str '''')),
      (''year'', js_or (obj_get (inst_fields i) ''year'') (Str '''')),
      (''stock'', js_or (obj_get (inst_fields i) ''stock'') (Str '''')),
      (''description'', js_or (obj_get (inst_fields i) ''description'') (Str '''')),
      (''price'', js_or (obj_get (inst_fields i) ''price'') (Str '''')),
      (''available'', js_or (obj_get (inst_fields i) ''available'') (Bool False)),
      (''idCategory'', js_or (obj_get (inst_fields i) ''idCategory'') (Str '''')),
      (''imageUrls'', Arr [])]"
  using assms by (simp add: hydrateEffect_def Let_def split: option.split)

lemma hydrateEffect_images:
  assumes "initialLoad st"
  shows "existingImages (hydrateEffect (Some i) st) =
           (case inst_imageUrls i of None \<Rightarrow> existingImages st
            | Some urls \<Rightarrow> if urls = [] then existingImages st else urls)"
    and "imagePreviews (hydrateEffect (Some i) st) =
           (case inst_imageUrls i of None \<Rightarrow> imagePreviews st
            | Some urls \<Rightarrow> if urls = [] then imagePreviews st else urls)"
    and "imageData (hydrateEffect (Some i) st) =
           (case inst_imageUrls i of None \<Rightarrow> imageData st
            | Some urls \<Rightarrow> if urls = [] then imageData st
                            else map (\<lambda>url. [(''url'', Str url)]) urls)"
    and "initialLoad (hydrateEffect (Some i) st) = False"
  using assms by (simp_all add: hydrateEffect_def Let_def split: option.split)

text \<open>
  Claim C9. Edit-mode hydration runs when a record is given and \<open>initialLoad\<close> is set,
  and changes nothing otherwise. When it runs,
  it writes the image arrays only for a non-empty \<^verbatim>\<open>imageUrls\<close>: if the record's
  \<^verbatim>\<open>imageUrls\<close> is absent or empty, \<open>existingImages\<close>, \<open>imagePreviews\<close> and \<open>imageData\<close>
  keep their prior values; if it is a non-empty list, all three are set from it. Each
  of name, brand, model, year, stock, description, price and idCategory is the source
  field when that is truthy and the empty string when it is falsy (so year 0 and stock
  0 become the empty string); \<open>available\<close> is the source field when truthy and
  \<open>false\<close> otherwise; \<^verbatim>\<open>formData.id\<close> is the record's \<open>id\<close> when truthy and its
  \<open>idProduct\<close> otherwise, in particular when \<open>id\<close> is absent. \<open>initialLoad\<close> is cleared.
\<close>

theorem hydrateEffect_edit_mode:
  "(initialLoad st \<longrightarrow>
      ((inst_imageUrls i = None \<or> inst_imageUrls i = Some []) \<longrightarrow>
          existingImages (hydrateEffect (Some i) st) = existingImages st \<and>
          imagePreviews (hydrateEffect (Some i) st) = imagePreviews st \<and>
          imageData (hydrateEffect (Some i) st) = imageData st)
      \<and> (\<forall>urls. inst_imageUrls i = Some urls \<and> urls \<noteq> [] \<longrightarrow>
          existingImages (hydrateEffect (Some i) st) = urls \<and>
          imagePreviews (hydrateEffect (Some i) st) = urls \<and>
          imageData (hydrateEffect (Some i) st) = map (\<lambda>url. [(''url'', Str url)]) urls)
      \<and> (\<forall>k \<in> set scalarFields.
          obj_get (formData (hydrateEffect (Some i) st)) k =
            (if truthy (obj_get (inst_fields i) k) then obj_get (inst_fields i) k
             else Str ''''))
      \<and> obj_get (formData (hydrateEffect (Some i) st)) ''available'' =
          (if truthy (obj_get (inst_fields i) ''available'')
           then obj_get (inst_fields i) ''available'' else Bool False)
      \<and> obj_get (formData (hydrateEffect (Some i) st)) ''id'' =
          (if truthy (obj_get (inst_fields i) ''id'') then obj_get (inst_fields i) ''id''
           else obj_get (inst_fields i) ''idProduct'')
      \<and> initialLoad (hydrateEffect (Some i) st) = False)
   \<and> (\<not> initialLoad st \<longrightarrow> hydrateEffect (Some i) st = st)
   \<and> hydrateEffect None st = st"
proof -
  have runs:
    "((inst_imageUrls i = None \<or> inst_imageUrls i = Some []) \<longrightarrow>
          existingImages (hydrateEffect (Some i) st) = existingImages st \<and>
          imagePreviews (hydrateEffect (Some i) st) = imagePreviews st \<and>
          imageData (hydrateEffect (Some i) st) = imageData st)
      \<and> (\<forall>urls. inst_imageUrls i = Some urls \<and> urls \<noteq> [] \<longrightarrow>
          existingImages (hydrateEffect (Some i) st) = urls \<and>
          imagePreviews (hydrateEffect (Some i) st) = urls \<and>
          imageData (hydrateEffect (Some i) st) = map (\<lambda>url. [(''url'', Str url)]) urls)
      \<and> (\<forall>k \<in> set scalarFields.
          obj_get (formData (hydrateEffect (Some i) st)) k =
            (if truthy (obj_get (inst_fields i) k) then obj_get (inst_fields i) k
             else Str ''''))
      \<and> obj_get (formData (hydrateEffect (Some i) st)) ''available'' =
          (if truthy (obj_get (inst_fields i) ''available'')
           then obj_get (inst_fields i) ''available'' else Bool False)
      \<and> obj_get (formData (hydrateEffect (Some i) st)) ''id'' =
          (if truthy (obj_get (inst_fields i) ''id'') then obj_get (inst_fields i) ''id''
           else obj_get (inst_fields i) ''idProduct'')
      \<and> initialLoad (hydrateEffect (Some i) st) = False"
    if il: "initialLoad st"
  proof (intro conjI)
    show "(inst_imageUrls i = None \<or> inst_imageUrls i = Some []) \<longrightarrow>
          existingImages (hydrateEffect (Some i) st) = existingImages st \<and>
          imagePreviews (hydrateEffect (Some i) st) = imagePreviews st \<and>
          imageData (hydrateEffect (Some i) st) = imageData st"
      using hydrateEffect_images [OF il, of i] by auto
    show "\<forall>urls. inst_imageUrls i = Some urls \<and> urls \<noteq> [] \<longrightarrow>
          existingImages (hydrateEffect (Some i) st) = urls \<and>
          imagePreviews (hydrateEffect (Some i) st) = urls \<and>
          imageData (hydrateEffect (Some i) st) = map (\<lambda>url. [(''url'', Str url)]) urls"
      using hydrateEffect_images [OF il, of i] by auto
    show "\<forall>k \<in> set scalarFields.
          obj_get (formData (hydrateEffect (Some i) st)) k =
            (if truthy (obj_get (inst_fields i) k) then obj_get (inst_fields i) k
             else Str '''')"
      by (simp add: hydrateEffect_formData [OF il] scalarFields_def obj_get_Cons js_or_def)
    show "obj_get (formData (hydrateEffect (Some i) st)) ''available'' =
          (if truthy (obj_get (inst_fields i) ''available'')
           then obj_get (inst_fields i) ''available'' else Bool False)"
      by (simp add: hydrateEffect_formData [OF il] obj_get_Cons js_or_def)
    show "obj_get (formData (hydrateEffect (Some i) st)) ''id'' =
          (if truthy (obj_get (inst_fields i) ''id'') then obj_get (inst_fields i) ''id''
           else obj_get (inst_fields i) ''idProduct'')"
      by (simp add: hydrateEffect_formData [OF il] obj_get_Cons js_or_def)
    show "initialLoad (hydrateEffect (Some i) st) = False"
      using hydrateEffect_images(4) [OF il, of i] .
  qed
  have idle: "hydrateEffect (Some i) st = st" if "\<not> initialLoad st"
    using that by (simp add: hydrateEffect_def)
  have none: "hydrateEffect None st = st"
    by (simp add: hydrateEffect_def)
  show ?thesis using runs idle none by blast
qed

text \<open>
  Claim C9 at a concrete input: a record with no \<open>id\<close>, \<open>idProduct\<close> 9, year 0, stock 0,
  no \<open>available\<close> and an empty \<^verbatim>\<open>imageUrls\<close>, opened over a form that still lists two
  previews: the previews stay, year is the empty string, \<open>available\<close> is false and
  the id is 9.
\<close>

theorem hydrateEffect_edit_mode_witness:
  "initialLoad (blobState\<lparr>initialLoad := True\<rparr>) \<and>
   inst_imageUrls wornRecord = Some [] \<and>
   imagePreviews (hydrateEffect (Some wornRecord) (blobState\<lparr>initialLoad := True\<rparr>)) =
     [''blob:1'', ''https://h/2.png''] \<and>
   obj_get (formData (hydrateEffect (Some wornRecord) (blobState\<lparr>initialLoad := True\<rparr>)))
     ''year'' = Str '''' \<and>
   obj_get (formData (hydrateEffect (Some wornRecord) (blobState\<lparr>initialLoad := True\<rparr>)))
     ''available'' = Bool False \<and>
   obj_get (formData (hydrateEffect (Some wornRecord) (blobState\<lparr>initialLoad := True\<rparr>)))
     ''id'' = Num (Finite 9)"
  using hydrateEffect_edit_mode [of "blobState\<lparr>initialLoad := True\<rparr>" wornRecord]
  by (simp add: wornRecord_def blobState_def initialState_def scalarFields_def obj_get_Cons
      obj_get_def)

section \<open>Selecting files\<close>

lemma outcomes_Nil: "outcomes post k [] = []"
  by (simp add: outcomes_def)

lemma outcomes_Cons: "outcomes post k (f # fs) = post k f # outcomes post (Suc k) fs"
  by (simp add: outcomes_def)

lemma outcomes_length: "length (outcomes post k files) = length files"
  by (simp add: outcomes_def)

lemma valid_batch_filter:
  "list_all (\<lambda>file. prefix ''image/'' (file_type file)) files \<Longrightarrow>
   filter (\<lambda>file. prefix ''image/'' (file_type file)) files = files"
  by (simp add: list_all_iff)

lemma uploadEach_success:
  assumes "outcomes post k files = map Inr responses"
  shows "uploadEach post setImageData k files st =
           (None,
            st\<lparr>imagePreviews := imagePreviews st @ map secureUrl responses,
               imageData := imageData st @
                 (if setImageData then
                    map (\<lambda>r. [(''url'', Str (secureUrl r)), (''publicId'', publicId r),
                               (''width'', width r), (''height'', height r),
                               (''format'', format r)]) responses
                  else []),
               trace := trace st @ map UploadRequest files\<rparr>)"
  using assms
proof (induction files arbitrary: k st responses)
  case Nil
  then show ?case by (simp add: outcomes_Nil)
next
  case (Cons f fs)
  from Cons.prems obtain r rs where rs: "responses = r # rs"
    and first: "post k f = Inr r" and rest: "outcomes post (Suc k) fs = map Inr rs"
    by (cases responses) (auto simp: outcomes_Cons)
  show ?case
    using first rs
    by (simp add: uploadImageViaBackend_def Let_def emit_def Cons.IH [OF rest])
qed

lemma uploadEach_failure:
  assumes "outcomes post k (take (Suc (length responses)) files) =
             map Inr responses @ [Inl error]"
  shows "uploadEach post setImageData k files st =
           (Some error,
            st\<lparr>imagePreviews := imagePreviews st @ map secureUrl responses,
               imageData := imageData st @
                 (if setImageData then
                    map (\<lambda>r. [(''url'', Str (secureUrl r)), (''publicId'', publicId r),
                               (''width'', width r), (''height'', height r),
                               (''format'', format r)]) responses
                  else []),
               trace := trace st @ map UploadRequest (take (Suc (length responses)) files)
                          @ [ConsoleError]\<rparr>)"
  using assms
proof (induction files arbitrary: k st responses)
  case Nil
  then show ?case by (simp add: outcomes_Nil)
next
  case (Cons f fs)
  show ?case
  proof (cases responses)
    assume "responses = []"
    then show ?thesis using Cons.prems
      by (simp add: uploadImageViaBackend_def emit_def outcomes_Cons)
  next
    fix r rs assume rs: "responses = r # rs"
    then have first: "post k f = Inr r"
      and rest: "outcomes post (Suc k) (take (Suc (length rs)) fs) = map Inr rs @ [Inl error]"
      using Cons.prems by (simp_all add: outcomes_Cons)
    show ?thesis
      using first rs
      by (simp add: uploadImageViaBackend_def Let_def emit_def Cons.IH [OF rest])
  qed
qed

text \<open>
  Claim C6. For every file-selection batch in create mode, if the batch size plus the
  current preview count exceeds 5, or if some selected file's media type does not
  start with \<^verbatim>\<open>image/\<close>, the whole batch is rejected: the user gets one alert (the
  five-image limit, else the image-only message), no upload is issued, and no preview,
  metadata or file entry is added; the state is otherwise untouched.
\<close>

theorem handleImageUpload_rejects_batch:
  assumes "5 < length files + length (imagePreviews st)
             \<or> (\<exists>file \<in> set files. \<not> prefix ''image/'' (file_type file))"
  shows "handleImageUpload post False setImageData setImageFiles files st =
           st\<lparr>trace := trace st @
             [Alert (if 5 < length files + length (imagePreviews st) then MsgMaxFive
                     else MsgOnlyImages)]\<rparr>"
  using assms
  by (auto simp: handleImageUpload_def emit_def Let_def dest: filter_length_neq)

text \<open>
  Claim C6 at a concrete input: six image files selected on a form with no preview;
  the preview count stays 0.
\<close>

theorem handleImageUpload_rejects_batch_witness:
  "5 < length sixFiles + length (imagePreviews initialState) \<and>
   handleImageUpload backendOk False True True sixFiles initialState =
     initialState\<lparr>trace := [Alert MsgMaxFive]\<rparr> \<and>
   length (imagePreviews (handleImageUpload backendOk False True True sixFiles initialState))
     = 0"
  using handleImageUpload_rejects_batch [of sixFiles initialState backendOk True True]
  by (simp add: sixFiles_def initialState_def)

text \<open>
  Claim C7. When a valid batch of \<open>n\<close> image files is selected in create mode (with
  the hook's \<^verbatim>\<open>setImageData\<close> passed to the component) and every upload succeeds,
  exactly \<open>n\<close> entries are appended to both \<open>imagePreviews\<close> and \<open>imageData\<close>, in
  selection order: the \<open>j\<close>-th new preview is the \<open>secureUrl\<close> the backend returned for
  the \<open>j\<close>-th file, and the \<open>j\<close>-th new metadata entry carries that response's
  \<open>secureUrl\<close> (as \<open>url\<close>), \<open>publicId\<close>, \<open>width\<close>, \<open>height\<close> and \<open>format\<close>. The uploads are
  issued one per file, in selection order.
\<close>

theorem handleImageUpload_all_succeed:
  assumes "length files + length (imagePreviews st) \<le> 5"
    and "list_all (\<lambda>file. prefix ''image/'' (file_type file)) files"
    and "outcomes post 0 files = map Inr responses"
  shows "imagePreviews (handleImageUpload post False True setImageFiles files st) =
           imagePreviews st @ map secureUrl responses \<and>
         imageData (handleImageUpload post False True setImageFiles files st) =
           imageData st @
             map (\<lambda>r. [(''url'', Str (secureUrl r)), (''publicId'', publicId r),
                        (''width'', width r), (''height'', height r), (''format'', format r)])
               responses \<and>
         length (imagePreviews (handleImageUpload post False True setImageFiles files st)) =
           length (imagePreviews st) + length files \<and>
         length (imageData (handleImageUpload post False True setImageFiles files st)) =
           length (imageData st) + length files \<and>
         trace (handleImageUpload post False True setImageFiles files st) =
           trace st @ map UploadRequest files"
proof -
  have n: "length responses = length files"
    using outcomes_length [of post 0 files] assms(3) by simp
  show ?thesis
    using assms(1) n valid_batch_filter [OF assms(2)]
    by (simp add: handleImageUpload_def Let_def uploadEach_success [OF assms(3)])
qed

text \<open>
  Claim C7 at a concrete input: three image files, each upload answered by the backend.
\<close>

theorem handleImageUpload_all_succeed_witness:
  "length threeFiles + length (imagePreviews initialState) \<le> 5 \<and>
   list_all (\<lambda>file. prefix ''image/'' (file_type file)) threeFiles \<and>
   outcomes backendOk 0 threeFiles = map Inr threeResponses \<and>
   imagePreviews (handleImageUpload backendOk False True True threeFiles initialState) =
     [''https://h/a'', ''https://h/b'', ''https://h/c''] \<and>
   length (imageData (handleImageUpload backendOk False True True threeFiles initialState)) = 3"
  using handleImageUpload_all_succeed [of threeFiles initialState backendOk threeResponses True]
  by (simp add: threeFiles_def threeResponses_def backendOk_def initialState_def outcomes_def)

text \<open>
  Claim C10. In a valid batch in create mode, with the hook's \<^verbatim>\<open>setImageFiles\<close> and
  \<^verbatim>\<open>setImageData\<close> passed, let the uploads of the first \<open>k\<close> files succeed and the next
  one fail (\<open>k\<close> may be 0, so the files are appended before any upload has answered).
  Then \<open>imageFiles\<close> has gained every file of the batch, while \<open>imagePreviews\<close> and
  \<open>imageData\<close> have gained only the \<open>k\<close> entries of the files uploaded before the
  failure: \<open>imageFiles\<close> has grown by more entries than \<open>imageData\<close>, so the two no
  longer correspond by position. No upload is issued after the failed one.
\<close>

theorem handleImageUpload_partial_failure:
  assumes "length files + length (imagePreviews st) \<le> 5"
    and "list_all (\<lambda>file. prefix ''image/'' (file_type file)) files"
    and "length responses < length files"
    and "outcomes post 0 (take (Suc (length responses)) files) =
           map Inr responses @ [Inl error]"
  shows "imageFiles (handleImageUpload post False True True files st) =
           imageFiles st @ files \<and>
         imagePreviews (handleImageUpload post False True True files st) =
           imagePreviews st @ map secureUrl responses \<and>
         imageData (handleImageUpload post False True True files st) =
           imageData st @
             map (\<lambda>r. [(''url'', Str (secureUrl r)), (''publicId'', publicId r),
                        (''width'', width r), (''height'', height r), (''format'', format r)])
               responses \<and>
         length (imageData (handleImageUpload post False True True files st))
             - length (imageData st)
           < length (imageFiles (handleImageUpload post False True True files st))
             - length (imageFiles st) \<and>
         trace (handleImageUpload post False True True files st) =
           trace st @ map UploadRequest (take (Suc (length responses)) files) @
             [ConsoleError, ConsoleError, Alert MsgUploadError]"
  using assms(1,3) valid_batch_filter [OF assms(2)]
  by (simp add: handleImageUpload_def Let_def emit_def uploadEach_failure [OF assms(4)])

text \<open>
  Claim C10 at a concrete input: three files, the second upload answered with status
  500. All three files are listed, one preview and one metadata entry are.
\<close>

theorem handleImageUpload_partial_failure_witness:
  "length threeFiles + length (imagePreviews initialState) \<le> 5 \<and>
   list_all (\<lambda>file. prefix ''image/'' (file_type file)) threeFiles \<and>
   length (take 1 threeResponses) < length threeFiles \<and>
   imageFiles (handleImageUpload backendFailsSecond False True True threeFiles initialState) =
     threeFiles \<and>
   imagePreviews (handleImageUpload backendFailsSecond False True True threeFiles initialState) =
     [''https://h/a''] \<and>
   length (imageData
     (handleImageUpload backendFailsSecond False True True threeFiles initialState)) = 1"
  using handleImageUpload_partial_failure
          [of threeFiles initialState "take 1 threeResponses" backendFailsSecond
              "JsError (Num (Finite 500)) (Str ''Request failed with status code 500'')"]
  by (simp add: threeFiles_def threeResponses_def backendFailsSecond_def initialState_def
      outcomes_def)

end
